theory Spec2Isabelle
  imports Main "HOL-Library.Sublist" "HOL-Library.Monad_Syntax"
begin

section \<open>PaisaPrompt: the form state and the generation request of \<^verbatim>\<open>App.tsx\<close>\<close>

text \<open>
  The component \<^verbatim>\<open>App\<close> keeps five pieces of React state (\<^verbatim>\<open>details\<close>,
  \<^verbatim>\<open>loading\<close>, \<^verbatim>\<open>result\<close>, \<^verbatim>\<open>error\<close>, \<^verbatim>\<open>copiedId\<close>) and talks to three
  things outside itself: the hosted model (\<^verbatim>\<open>ai.models.generateContent\<close>), the clipboard
  and the timer queue. The embedding keeps the React state and the observable part of
  those three in one record and turns every handler into a function on it.

  A JavaScript string is modelled as a \<^typ>\<open>string\<close>: each UTF-16 code unit below
  \<open>0x80\<close> is one character, any other code unit is the byte sequence UTF-8 would
  give a code point of that value.
\<close>

subsection \<open>Types (lines 5-32)\<close>

datatype Mode = ModeCollect | ModeNegotiate

datatype Language = Hinglish | English

record SituationDetails =
  mode :: Mode
  amount :: string
  overdue :: string
  relationship :: string
  channel :: string
  language :: Language
  customerName :: string
  yourName :: string
  otherInfo :: string
  delayReason :: string
  proposedSolution :: string
  customReason :: string
  customSolution :: string

record GeneratedMessage =
  variant :: string
  title :: string
  content :: string

record Result =
  summary :: string
  principles :: "string list"
  variants :: "GeneratedMessage list"
  voiceNote :: string

text \<open>How a template literal prints the two string-literal unions.\<close>

fun Mode_text :: "Mode \<Rightarrow> string" where
  "Mode_text ModeCollect = ''collect''"
| "Mode_text ModeNegotiate = ''negotiate''"

fun Language_text :: "Language \<Rightarrow> string" where
  "Language_text Hinglish = ''Hinglish''"
| "Language_text English = ''English''"

subsection \<open>Constants (lines 35-50)\<close>

definition DELAY_REASONS :: "string list" where
  "DELAY_REASONS =
    [''Cash flow issues'',
     ''Waiting for another payment'',
     ''Medical/Family emergency'',
     ''Technical error in banking'',
     ''Forgot in busy schedule'',
     ''Other (Custom)'']"

definition PROPOSED_SOLUTIONS :: "string list" where
  "PROPOSED_SOLUTIONS =
    [''Pay 50% now, rest in 1 week'',
     ''Clear full amount by next Friday'',
     ''Need a small discount/waiver'',
     ''Requesting extra 15 days'',
     ''Other (Custom)'']"

subsection \<open>Building the request (lines 106-170)\<close>

text \<open>\<^verbatim>\<open>a || b\<close> on strings: the empty string is falsy.\<close>

definition or_else :: "string \<Rightarrow> string \<Rightarrow> string" where
  "or_else a b = (if a = [] then b else a)"

definition finalReason :: "SituationDetails \<Rightarrow> string" where
  "finalReason d =
    (if delayReason d = ''Other (Custom)'' then customReason d else delayReason d)"

definition finalSolution :: "SituationDetails \<Rightarrow> string" where
  "finalSolution d =
    (if proposedSolution d = ''Other (Custom)'' then customSolution d else proposedSolution d)"

definition languageInstruction :: "SituationDetails \<Rightarrow> string" where
  "languageInstruction d =
    (if language d = Hinglish
     then ''Use natural Hinglish (mix of simple Hindi + English) in Roman script. Use words like 'bhai', 'sir', 'ma'am', 'yaar' appropriately. Never use Devanagari.''
     else ''Use professional, polite, and warm English. Maintain a helpful and respectful tone.'')"

definition systemInstruction :: "SituationDetails \<Rightarrow> string" where
  "systemInstruction d =
    ''You are an expert in creating polite, high-success-rate payment reminders for India. \<newline>'' @
    ''      Language Requirement: '' @ languageInstruction d @ ''\<newline>'' @
    ''      Tone: Respectful, professional, friendly, never threatening. Use psychological levers like Reciprocity, Commitment, and Face-saving.\<newline>'' @
    ''      \<newline>'' @
    ''      STRUCTURE RULES:\<newline>'' @
    ''      1. Situation summary: 1 short sentence in English.\<newline>'' @
    ''      2. Key psychological principles: List 3-6 items.\<newline>'' @
    ''      3. Message Variants:\<newline>'' @
    ''         - Variant A: Sabse zyada warm (most empathetic)\<newline>'' @
    ''         - Variant B: Reciprocity focus (remind of value/service provided)\<newline>'' @
    ''         - Variant C: Soft time sensitivity + easy call-to-action\<newline>'' @
    ''         - Variant D: Face-saving excuse (busy life/system error) + positive future.\<newline>'' @
    ''      4. Voice Note script: Short spoken opener in the selected language.\<newline>'' @
    ''      \<newline>'' @
    ''      IMPORTANT: Ensure all messages end with a clear Call to Action. Length: 80-180 words each. Do not use placeholders like [Your Name] if names are provided.''"

text \<open>The line of the prompt that only the negotiate mode has (line 138).\<close>

definition negotiateLines :: "SituationDetails \<Rightarrow> string" where
  "negotiateLines d =
    (if mode d = ModeNegotiate
     then ''Reason for Delay: '' @ finalReason d @ ''\<newline>'' @
          ''Proposed Solution: '' @ finalSolution d
     else '''')"

definition userPrompt :: "SituationDetails \<Rightarrow> string" where
  "userPrompt d =
    ''\<newline>'' @
    ''        Mode: '' @ Mode_text (mode d) @ ''\<newline>'' @
    ''        Amount: '' @ amount d @ ''\<newline>'' @
    ''        Relationship: '' @ relationship d @ ''\<newline>'' @
    ''        Channel: '' @ channel d @ ''\<newline>'' @
    ''        Target Language: '' @ Language_text (language d) @ ''\<newline>'' @
    ''        Customer Name: '' @ or_else (customerName d) ''Customer'' @ ''\<newline>'' @
    ''        Sender Name: '' @ or_else (yourName d) ''Sender'' @ ''\<newline>'' @
    ''        How long overdue: '' @ overdue d @ ''\<newline>'' @
    ''        '' @ negotiateLines d @ ''\<newline>'' @
    ''        Additional Context: '' @ otherInfo d @ ''\<newline>'' @
    ''      ''"

text \<open>The response schema of the request, an object of the SDK's \<^verbatim>\<open>Type\<close> tags.\<close>

datatype Schema =
  SString
| SArray Schema
| SObject "(string \<times> Schema) list" "string list"

definition responseSchema :: Schema where
  "responseSchema =
    SObject
      [(''summary'', SString),
       (''principles'', SArray SString),
       (''variants'',
          SArray (SObject
            [(''variant'', SString), (''title'', SString), (''content'', SString)]
            [''variant'', ''title'', ''content''])),
       (''voiceNote'', SString)]
      [''summary'', ''principles'', ''variants'', ''voiceNote'']"

record Request =
  model :: string
  contents :: string
  config_systemInstruction :: string
  config_responseMimeType :: string
  config_responseSchema :: Schema

definition build_request :: "SituationDetails \<Rightarrow> Request" where
  "build_request d =
    \<lparr> model = ''gemini-3-flash-preview'',
      contents = userPrompt d,
      config_systemInstruction = systemInstruction d,
      config_responseMimeType = ''application/json'',
      config_responseSchema = responseSchema \<rparr>"

subsection \<open>JSON values and \<^verbatim>\<open>JSON.parse\<close> (line 172)\<close>

text \<open>
  \<^verbatim>\<open>JSON.parse\<close> is a built-in of the language, not code of the application. Its model
  follows the JSON grammar of ECMA-404, which the built-in implements: one pass over
  the characters with an explicit stack of open containers. A number keeps its lexeme
  (the built-in turns it into a double), an object keeps its members in the order of the
  text, duplicates included (a property read takes the last one). A text that is not
  JSON makes the built-in throw \<^verbatim>\<open>SyntaxError\<close>: the model returns \<open>None\<close>.
\<close>

datatype json =
  JNull
| JBool bool
| JNumber string
| JString string
| JArray "json list"
| JObject "(string \<times> json) list"

datatype frame =
  FArray "json list"
| FObject "(string \<times> json) list"
| FMember "(string \<times> json) list" string

datatype numst = NMinus | NZero | NInt | NDot | NFrac | NExp | NExpSign | NExpDigits

datatype pmode =
  PValue
| PArrStart
| PObjStart
| PKey
| PColon
| PAfter
| PDone json
| PStr bool string
| PEsc bool string
| PUni bool string nat nat
| PNum numst string
| PLit string json

type_synonym pstate = "pmode \<times> frame list"

definition is_ws :: "char \<Rightarrow> bool" where
  "is_ws c = (c = CHR '' '' \<or> c = CHR 0x09 \<or> c = CHR 0x0A \<or> c = CHR 0x0D)"

definition is_digit :: "char \<Rightarrow> bool" where
  "is_digit c = (c \<in> set ''0123456789'')"

definition is_digit19 :: "char \<Rightarrow> bool" where
  "is_digit19 c = (c \<in> set ''123456789'')"

definition is_exp :: "char \<Rightarrow> bool" where
  "is_exp c = (c = CHR ''e'' \<or> c = CHR ''E'')"

definition hex_digit :: "char \<Rightarrow> nat option" where
  "hex_digit c =
    (if is_digit c then Some (of_char c - 48)
     else if c \<in> set ''abcdef'' then Some (of_char c - 87)
     else if c \<in> set ''ABCDEF'' then Some (of_char c - 55)
     else None)"

definition unescape :: "char \<Rightarrow> char option" where
  "unescape c =
    (if c = CHR 0x22 then Some (CHR 0x22)
     else if c = CHR 0x5C then Some (CHR 0x5C)
     else if c = CHR ''/'' then Some (CHR ''/'')
     else if c = CHR ''b'' then Some (CHR 0x08)
     else if c = CHR ''f'' then Some (CHR 0x0C)
     else if c = CHR ''n'' then Some (CHR 0x0A)
     else if c = CHR ''r'' then Some (CHR 0x0D)
     else if c = CHR ''t'' then Some (CHR 0x09)
     else None)"

text \<open>The characters that stand for the code unit \<open>v\<close> of a \<^verbatim>\<open>\uXXXX\<close> escape.\<close>

definition code_unit :: "nat \<Rightarrow> string" where
  "code_unit v =
    (if v < 0x80 then [char_of v]
     else if v < 0x800 then [char_of (0xC0 + v div 64), char_of (0x80 + v mod 64)]
     else [char_of (0xE0 + v div 4096), char_of (0x80 + (v div 64) mod 64),
           char_of (0x80 + v mod 64)])"

fun num_step :: "numst \<Rightarrow> char \<Rightarrow> numst option" where
  "num_step NMinus c =
     (if c = CHR ''0'' then Some NZero else if is_digit19 c then Some NInt else None)"
| "num_step NZero c =
     (if c = CHR ''.'' then Some NDot else if is_exp c then Some NExp else None)"
| "num_step NInt c =
     (if is_digit c then Some NInt else if c = CHR ''.'' then Some NDot
      else if is_exp c then Some NExp else None)"
| "num_step NDot c = (if is_digit c then Some NFrac else None)"
| "num_step NFrac c =
     (if is_digit c then Some NFrac else if is_exp c then Some NExp else None)"
| "num_step NExp c =
     (if c = CHR ''+'' \<or> c = CHR ''-'' then Some NExpSign
      else if is_digit c then Some NExpDigits else None)"
| "num_step NExpSign c = (if is_digit c then Some NExpDigits else None)"
| "num_step NExpDigits c = (if is_digit c then Some NExpDigits else None)"

fun num_final :: "numst \<Rightarrow> bool" where
  "num_final NZero = True"
| "num_final NInt = True"
| "num_final NFrac = True"
| "num_final NExpDigits = True"
| "num_final _ = False"

text \<open>A value is complete: it goes into the innermost open container.\<close>

fun complete :: "json \<Rightarrow> frame list \<Rightarrow> pstate option" where
  "complete v [] = Some (PDone v, [])"
| "complete v (FArray xs # st) = Some (PAfter, FArray (v # xs) # st)"
| "complete v (FMember ms k # st) = Some (PAfter, FObject ((k, v) # ms) # st)"
| "complete v (FObject ms # st) = None"

fun close_array :: "frame list \<Rightarrow> pstate option" where
  "close_array (FArray xs # st) = complete (JArray (rev xs)) st"
| "close_array _ = None"

fun close_object :: "frame list \<Rightarrow> pstate option" where
  "close_object (FObject ms # st) = complete (JObject (rev ms)) st"
| "close_object _ = None"

fun end_string :: "bool \<Rightarrow> string \<Rightarrow> frame list \<Rightarrow> pstate option" where
  "end_string False s st = complete (JString s) st"
| "end_string True s (FObject ms # st) = Some (PColon, FMember ms s # st)"
| "end_string True s _ = None"

definition start_value :: "char \<Rightarrow> frame list \<Rightarrow> pstate option" where
  "start_value c st =
    (if c = CHR ''{'' then Some (PObjStart, FObject [] # st)
     else if c = CHR ''['' then Some (PArrStart, FArray [] # st)
     else if c = CHR 0x22 then Some (PStr False [], st)
     else if c = CHR ''-'' then Some (PNum NMinus [c], st)
     else if c = CHR ''0'' then Some (PNum NZero [c], st)
     else if is_digit19 c then Some (PNum NInt [c], st)
     else if c = CHR ''t'' then Some (PLit ''rue'' (JBool True), st)
     else if c = CHR ''f'' then Some (PLit ''alse'' (JBool False), st)
     else if c = CHR ''n'' then Some (PLit ''ull'' JNull, st)
     else None)"

text \<open>After a value: a comma, the closing bracket of the container, or white space.\<close>

fun delim :: "char \<Rightarrow> pstate \<Rightarrow> pstate option" where
  "delim c (PDone v, st) = (if is_ws c then Some (PDone v, st) else None)"
| "delim c (PAfter, st) =
     (if is_ws c then Some (PAfter, st)
      else if c = CHR '','' then
        (case st of
           FArray xs # _ \<Rightarrow> Some (PValue, st)
         | FObject ms # _ \<Rightarrow> Some (PKey, st)
         | _ \<Rightarrow> None)
      else if c = CHR '']'' then close_array st
      else if c = CHR ''}'' then close_object st
      else None)"
| "delim c _ = None"

fun pstep :: "char \<Rightarrow> pstate \<Rightarrow> pstate option" where
  "pstep c (PValue, st) = (if is_ws c then Some (PValue, st) else start_value c st)"
| "pstep c (PArrStart, st) =
     (if is_ws c then Some (PArrStart, st)
      else if c = CHR '']'' then close_array st
      else start_value c st)"
| "pstep c (PObjStart, st) =
     (if is_ws c then Some (PObjStart, st)
      else if c = CHR ''}'' then close_object st
      else if c = CHR 0x22 then Some (PStr True [], st)
      else None)"
| "pstep c (PKey, st) =
     (if is_ws c then Some (PKey, st)
      else if c = CHR 0x22 then Some (PStr True [], st)
      else None)"
| "pstep c (PColon, st) =
     (if is_ws c then Some (PColon, st)
      else if c = CHR '':'' then Some (PValue, st)
      else None)"
| "pstep c (PAfter, st) = delim c (PAfter, st)"
| "pstep c (PDone v, st) = delim c (PDone v, st)"
| "pstep c (PStr k acc, st) =
     (if c = CHR 0x22 then end_string k (rev acc) st
      else if c = CHR 0x5C then Some (PEsc k acc, st)
      else if (of_char c :: nat) < 0x20 then None
      else Some (PStr k (c # acc), st))"
| "pstep c (PEsc k acc, st) =
     (if c = CHR ''u'' then Some (PUni k acc 4 0, st)
      else (case unescape c of
              None \<Rightarrow> None
            | Some e \<Rightarrow> Some (PStr k (e # acc), st)))"
| "pstep c (PUni k acc n v, st) =
     (case hex_digit c of
        None \<Rightarrow> None
      | Some h \<Rightarrow>
          (if n \<le> 1 then Some (PStr k (rev (code_unit (16 * v + h)) @ acc), st)
           else Some (PUni k acc (n - 1) (16 * v + h), st)))"
| "pstep c (PNum ns lx, st) =
     (case num_step ns c of
        Some ns' \<Rightarrow> Some (PNum ns' (c # lx), st)
      | None \<Rightarrow>
          (if num_final ns then
             (case complete (JNumber (rev lx)) st of
                None \<Rightarrow> None
              | Some s' \<Rightarrow> delim c s')
           else None))"
| "pstep c (PLit [] v, st) = None"
| "pstep c (PLit (r # rs) v, st) =
     (if c \<noteq> r then None
      else if rs = [] then complete v st
      else Some (PLit rs v, st))"

fun prun :: "string \<Rightarrow> pstate \<Rightarrow> pstate option" where
  "prun [] s = Some s"
| "prun (c # cs) s = (case pstep c s of None \<Rightarrow> None | Some s' \<Rightarrow> prun cs s')"

fun pfinish :: "pstate \<Rightarrow> json option" where
  "pfinish (PDone v, []) = Some v"
| "pfinish (PNum ns lx, []) = (if num_final ns then Some (JNumber (rev lx)) else None)"
| "pfinish _ = None"

definition JSON_parse :: "string \<Rightarrow> json option" where
  "JSON_parse text = (case prun text (PValue, []) of None \<Rightarrow> None | Some s \<Rightarrow> pfinish s)"

subsection \<open>A parsed value seen as a \<^verbatim>\<open>Result\<close> (lines 21-32)\<close>

text \<open>
  \<^verbatim>\<open>JSON.parse\<close> returns \<^verbatim>\<open>any\<close>, and the state variable is declared
  \<^verbatim>\<open>Result | null\<close>. \<open>as_Result\<close> reads a parsed value through that interface: it is
  \<open>Some\<close> exactly when the value has the four properties with the declared types.
\<close>

fun property :: "string \<Rightarrow> json \<Rightarrow> json option" where
  "property k (JObject ms) = map_of (rev ms) k"
| "property k _ = None"

fun as_string :: "json \<Rightarrow> string option" where
  "as_string (JString s) = Some s"
| "as_string _ = None"

fun as_array :: "json \<Rightarrow> json list option" where
  "as_array (JArray xs) = Some xs"
| "as_array _ = None"

definition string_property :: "string \<Rightarrow> json \<Rightarrow> string option" where
  "string_property k j = (case property k j of None \<Rightarrow> None | Some v \<Rightarrow> as_string v)"

definition array_property :: "string \<Rightarrow> json \<Rightarrow> json list option" where
  "array_property k j = (case property k j of None \<Rightarrow> None | Some v \<Rightarrow> as_array v)"

definition as_GeneratedMessage :: "json \<Rightarrow> GeneratedMessage option" where
  "as_GeneratedMessage j =
    do {
      v \<leftarrow> string_property ''variant'' j;
      t \<leftarrow> string_property ''title'' j;
      c \<leftarrow> string_property ''content'' j;
      Some \<lparr> variant = v, title = t, content = c \<rparr>
    }"

definition as_Result :: "json \<Rightarrow> Result option" where
  "as_Result j =
    do {
      s \<leftarrow> string_property ''summary'' j;
      ps \<leftarrow> array_property ''principles'' j;
      ps' \<leftarrow> those (map as_string ps);
      vs \<leftarrow> array_property ''variants'' j;
      vs' \<leftarrow> those (map as_GeneratedMessage vs);
      n \<leftarrow> string_property ''voiceNote'' j;
      Some \<lparr> summary = s, principles = ps', variants = vs', voiceNote = n \<rparr>
    }"

definition conforms_Result :: "json \<Rightarrow> bool" where
  "conforms_Result j = (as_Result j \<noteq> None)"

subsection \<open>The state of the component and of its surroundings (lines 69-87)\<close>

text \<open>
  \<open>result\<close> holds whatever \<^verbatim>\<open>setResult\<close> was given; \<^verbatim>\<open>null\<close> is \<open>JNull\<close>.
  \<open>requests\<close> lists every call of \<^verbatim>\<open>generateContent\<close> made so far, \<open>pending\<close> those
  that have not settled yet, \<open>clipboard\<close> every text given to \<^verbatim>\<open>writeText\<close>, and
  \<open>timers\<close> the times (in milliseconds on \<open>clock\<close>) at which a pending
  \<^verbatim>\<open>setTimeout\<close> callback is due.
\<close>

record App_state =
  details :: SituationDetails
  loading :: bool
  result :: json
  error :: "string option"
  copiedId :: "string option"
  requests :: "Request list"
  pending :: "Request list"
  clipboard :: "string list"
  clock :: nat
  timers :: "nat list"

definition initial_details :: SituationDetails where
  "initial_details =
    \<lparr> mode = ModeCollect,
      amount = [],
      overdue = [],
      relationship = ''Client'',
      channel = ''WhatsApp'',
      language = Hinglish,
      customerName = [],
      yourName = [],
      otherInfo = [],
      delayReason = hd DELAY_REASONS,
      proposedSolution = hd PROPOSED_SOLUTIONS,
      customReason = [],
      customSolution = [] \<rparr>"

definition initial_state :: App_state where
  "initial_state =
    \<lparr> details = initial_details,
      loading = False,
      result = JNull,
      error = None,
      copiedId = None,
      requests = [],
      pending = [],
      clipboard = [],
      clock = 0,
      timers = [] \<rparr>"

subsection \<open>\<^verbatim>\<open>handleInputChange\<close> (lines 89-92) and the mode buttons (lines 195, 201)\<close>

text \<open>
  One constructor for each named input of the form, with the value the input can
  deliver. There is no input named \<^verbatim>\<open>otherInfo\<close> or \<^verbatim>\<open>mode\<close>.
\<close>

datatype Change =
  Amount string
| Relationship string
| LanguageSelect Language
| Channel string
| Overdue string
| CustomerName string
| YourName string
| DelayReason string
| CustomReason string
| ProposedSolution string
| CustomSolution string

fun set_field :: "Change \<Rightarrow> SituationDetails \<Rightarrow> SituationDetails" where
  "set_field (Amount v) d = d\<lparr>amount := v\<rparr>"
| "set_field (Relationship v) d = d\<lparr>relationship := v\<rparr>"
| "set_field (LanguageSelect v) d = d\<lparr>language := v\<rparr>"
| "set_field (Channel v) d = d\<lparr>channel := v\<rparr>"
| "set_field (Overdue v) d = d\<lparr>overdue := v\<rparr>"
| "set_field (CustomerName v) d = d\<lparr>customerName := v\<rparr>"
| "set_field (YourName v) d = d\<lparr>yourName := v\<rparr>"
| "set_field (DelayReason v) d = d\<lparr>delayReason := v\<rparr>"
| "set_field (CustomReason v) d = d\<lparr>customReason := v\<rparr>"
| "set_field (ProposedSolution v) d = d\<lparr>proposedSolution := v\<rparr>"
| "set_field (CustomSolution v) d = d\<lparr>customSolution := v\<rparr>"

definition handleInputChange :: "Change \<Rightarrow> App_state \<Rightarrow> App_state" where
  "handleInputChange ch s = s\<lparr>details := set_field ch (details s)\<rparr>"

text \<open>
  The two \<^verbatim>\<open>onClick\<close> handlers of the mode selector:
  \<^verbatim>\<open>setDetails(d => ({ ...d, mode })); setResult(null)\<close>.
\<close>

definition selectMode :: "Mode \<Rightarrow> App_state \<Rightarrow> App_state" where
  "selectMode m s = s\<lparr>details := (details s)\<lparr>mode := m\<rparr>, result := JNull\<rparr>"

subsection \<open>\<^verbatim>\<open>generateOutput\<close> (lines 94-180)\<close>

text \<open>
  What the awaited call comes back with: \<open>Fault\<close> when it throws or rejects,
  \<open>Text t\<close> when it resolves, \<open>t\<close> being \<^verbatim>\<open>response.text\<close> (\<open>None\<close> for
  \<^verbatim>\<open>undefined\<close>). Line 105, which creates the client of the SDK from the key of the
  build (a string in every case, by \<^verbatim>\<open>|| ''\<close>), is taken to succeed, so the call of
  line 142 is always reached.
\<close>

datatype Response = Fault | Text "string option"

text \<open>\<^verbatim>\<open>response.text || '{}'\<close>: \<^verbatim>\<open>undefined\<close> and the empty string are falsy.\<close>

fun text_or_empty_object :: "string option \<Rightarrow> string" where
  "text_or_empty_object None = ''{}''"
| "text_or_empty_object (Some t) = or_else t ''{}''"

definition validation_message :: string where
  "validation_message = ''Please enter the amount.''"

definition generic_message :: string where
  "generic_message = ''Something went wrong. Please check your inputs and try again.''"

text \<open>
  The function up to its \<^verbatim>\<open>await\<close>: the guard on the amount, the three state updates
  and the call, which is recorded and left pending.
\<close>

definition generateOutput_start :: "App_state \<Rightarrow> App_state" where
  "generateOutput_start s =
    (if amount (details s) = [] then s\<lparr>error := Some validation_message\<rparr>
     else s\<lparr> loading := True, error := None, result := JNull,
             requests := requests s @ [build_request (details s)],
             pending := pending s @ [build_request (details s)] \<rparr>)"

text \<open>
  The function from its \<^verbatim>\<open>await\<close> on, when the oldest pending call settles with
  \<open>r\<close>: the \<^verbatim>\<open>try\<close> body, the \<^verbatim>\<open>catch\<close> and the \<^verbatim>\<open>finally\<close>.
\<close>

definition try_catch :: "Response \<Rightarrow> App_state \<Rightarrow> App_state" where
  "try_catch r s =
    (case r of
       Fault \<Rightarrow> s\<lparr>error := Some generic_message\<rparr>
     | Text t \<Rightarrow>
         (case JSON_parse (text_or_empty_object t) of
            None \<Rightarrow> s\<lparr>error := Some generic_message\<rparr>
          | Some parsedResult \<Rightarrow> s\<lparr>result := parsedResult\<rparr>))"

definition generateOutput_resume :: "Response \<Rightarrow> App_state \<Rightarrow> App_state" where
  "generateOutput_resume r s = (try_catch r s)\<lparr>loading := False, pending := tl (pending s)\<rparr>"

text \<open>
  One invocation run to its end with nothing in between: \<open>gen\<close> is the external
  generation boundary, giving the outcome of the call for a request.
\<close>

definition generateOutput :: "(Request \<Rightarrow> Response) \<Rightarrow> App_state \<Rightarrow> App_state" where
  "generateOutput gen s =
    (if amount (details s) = [] then generateOutput_start s
     else generateOutput_resume (gen (build_request (details s))) (generateOutput_start s))"

subsection \<open>Values as text: \<^verbatim>\<open>${v.variant}\<close> and the argument of \<^verbatim>\<open>writeText\<close>\<close>

text \<open>
  A template literal and \<^verbatim>\<open>writeText\<close> turn the value they are given into a string
  (the \<^verbatim>\<open>ToString\<close> of the language). For a number this is the printing of a double:
  \<open>to_double\<close> is the double nearest to \<open>m * 10 ^ e\<close> (ties to the even mantissa),
  as \<open>q * 2 ^ b\<close> with \<open>q < 2 ^ 53\<close>, and \<open>double_text\<close> prints it with the fewest
  digits that read back as the same double, in the layout of \<^verbatim>\<open>Number.prototype.toString\<close>.
  All of it is exact integer arithmetic.
\<close>

datatype double = DZero | DInfinity | DFinite int int

function bit_length :: "int \<Rightarrow> int" where
  "bit_length n = (if n \<le> 0 then 0 else 1 + bit_length (n div 2))"
  by pat_completeness auto
termination
  by (relation "measure nat") auto

declare bit_length.simps [simp del]

definition pow2 :: "int \<Rightarrow> int" where
  "pow2 k = 2 ^ nat k"

definition pow10 :: "int \<Rightarrow> int" where
  "pow10 k = 10 ^ nat k"

definition round_half_even :: "int \<Rightarrow> int \<Rightarrow> int" where
  "round_half_even n d =
    (let q = n div d; r = n mod d
     in if d < 2 * r \<or> (2 * r = d \<and> odd q) then q + 1 else q)"

definition to_double :: "int \<Rightarrow> int \<Rightarrow> double" where
  "to_double m e =
    (if m \<le> 0 then DZero
     else
       let num = m * pow10 e;
           den = pow10 (- e);
           b0 = bit_length num - bit_length den - 53;
           t = (num * pow2 (- b0)) div (den * pow2 b0);
           b = max (if 2 ^ 53 \<le> t then b0 + 1 else b0) (- 1074);
           q = round_half_even (num * pow2 (- b)) (den * pow2 b)
       in if q = 0 then DZero
          else if q = 2 ^ 53 then (if 971 < b + 1 then DInfinity else DFinite (2 ^ 52) (b + 1))
          else if 971 < b then DInfinity
          else DFinite q b)"

function int_text :: "int \<Rightarrow> string" where
  "int_text n =
    (if n < 10 then [char_of (48 + n)]
     else int_text (n div 10) @ [char_of (48 + n mod 10)])"
  by pat_completeness auto
termination
  by (relation "measure nat") auto

declare int_text.simps [simp del]

definition digits_value :: "string \<Rightarrow> int" where
  "digits_value ds = foldl (\<lambda>n c. 10 * n + (of_char c - 48)) 0 ds"

text \<open>The \<open>n\<close> with \<open>10 ^ (n - 1) \<le> q * 2 ^ b < 10 ^ n\<close>.\<close>

definition magnitude :: "int \<Rightarrow> int \<Rightarrow> int" where
  "magnitude q b =
    (let xn = q * pow2 b; xd = pow2 (- b)
     in if xd \<le> xn then int (length (int_text (xn div xd)))
        else let j = int (length (int_text xd)) - int (length (int_text xn))
             in if xd \<le> xn * pow10 j then 1 - j else - j)"

text \<open>The two numbers of \<open>k\<close> digits next to \<open>q * 2 ^ b\<close>, the nearer one first.\<close>

definition candidates :: "int \<Rightarrow> int \<Rightarrow> int \<Rightarrow> int \<Rightarrow> int list" where
  "candidates q b n k =
    (let xn = q * pow2 b * pow10 (k - n); xd = pow2 (- b) * pow10 (n - k);
         lo = xn div xd; near = round_half_even xn xd
     in if near = lo then [lo, lo + 1] else [lo + 1, lo])"

fun shortest :: "int \<Rightarrow> int \<Rightarrow> int \<Rightarrow> int list \<Rightarrow> int \<times> int" where
  "shortest q b n [] = (q, 0)"
| "shortest q b n (k # ks) =
     (case filter (\<lambda>s. to_double s (n - k) = DFinite q b) (candidates q b n k) of
        [] \<Rightarrow> shortest q b n ks
      | s # _ \<Rightarrow> (s, k))"

definition exponent_text :: "int \<Rightarrow> string" where
  "exponent_text e = (if e < 0 then ''-'' @ int_text (- e) else ''+'' @ int_text e)"

definition format_decimal :: "string \<Rightarrow> int \<Rightarrow> string" where
  "format_decimal ds n =
    (let k = int (length ds)
     in if k \<le> n \<and> n \<le> 21 then ds @ replicate (nat (n - k)) (CHR ''0'')
        else if 0 < n \<and> n \<le> 21 then take (nat n) ds @ ''.'' @ drop (nat n) ds
        else if - 6 < n \<and> n \<le> 0 then ''0.'' @ replicate (nat (- n)) (CHR ''0'') @ ds
        else if k = 1 then ds @ ''e'' @ exponent_text (n - 1)
        else take 1 ds @ ''.'' @ drop 1 ds @ ''e'' @ exponent_text (n - 1))"

definition double_text :: "double \<Rightarrow> string" where
  "double_text x =
    (case x of
       DZero \<Rightarrow> ''0''
     | DInfinity \<Rightarrow> ''Infinity''
     | DFinite q b \<Rightarrow>
         (let n = magnitude q b;
              (s, k) = shortest q b n (map int [1..<18])
          in if s = pow10 k then format_decimal ''1'' (n + 1)
             else format_decimal (int_text s) n))"

text \<open>Sign, digits and decimal exponent of a number lexeme of JSON.\<close>

definition lexeme_parts :: "string \<Rightarrow> bool \<times> int \<times> int" where
  "lexeme_parts lx =
    (let neg = (take 1 lx = ''-'');
         body = (if neg then drop 1 lx else lx);
         ip = takeWhile is_digit body;
         r1 = dropWhile is_digit body;
         dot = (take 1 r1 = ''.'');
         fp = (if dot then takeWhile is_digit (drop 1 r1) else []);
         r2 = (if dot then dropWhile is_digit (drop 1 r1) else r1);
         ds = drop 1 r2;
         ex = (if take 1 ds = ''-'' then - digits_value (drop 1 ds)
               else if take 1 ds = ''+'' then digits_value (drop 1 ds)
               else digits_value ds)
     in (neg, digits_value (ip @ fp), ex - int (length fp)))"

definition Number_text :: "string \<Rightarrow> string" where
  "Number_text lx =
    (case lexeme_parts lx of
       (neg, m, e) \<Rightarrow>
         (case to_double m e of
            DZero \<Rightarrow> ''0''
          | x \<Rightarrow> (if neg then ''-'' else []) @ double_text x))"

text \<open>\<^verbatim>\<open>Array.prototype.join\<close> with a comma.\<close>

fun join_comma :: "string list \<Rightarrow> string" where
  "join_comma [] = []"
| "join_comma [x] = x"
| "join_comma (x # y # ys) = x @ '','' @ join_comma (y # ys)"

fun ToString :: "json \<Rightarrow> string" where
  "ToString JNull = ''null''"
| "ToString (JBool b) = (if b then ''true'' else ''false'')"
| "ToString (JNumber lx) = Number_text lx"
| "ToString (JString s) = s"
| "ToString (JArray xs) = join_comma (map (\<lambda>x. if x = JNull then [] else ToString x) xs)"
| "ToString (JObject ms) = ''[object Object]''"

text \<open>The text of a property read: \<open>None\<close> is \<^verbatim>\<open>undefined\<close>.\<close>

definition text_of :: "json option \<Rightarrow> string" where
  "text_of v = (case v of None \<Rightarrow> ''undefined'' | Some j \<Rightarrow> ToString j)"

subsection \<open>\<^verbatim>\<open>copyToClipboard\<close> (lines 182-186) and the timer\<close>

definition copyToClipboard :: "string \<Rightarrow> string \<Rightarrow> App_state \<Rightarrow> App_state" where
  "copyToClipboard text ident s =
    s\<lparr> clipboard := clipboard s @ [text],
       copiedId := Some ident,
       timers := timers s @ [clock s + 2000] \<rparr>"

text \<open>
  Time passes: every callback that is due by the new time runs, and each of them is
  \<^verbatim>\<open>setCopiedId(null)\<close>.
\<close>

definition elapse :: "nat \<Rightarrow> App_state \<Rightarrow> App_state" where
  "elapse dt s =
    s\<lparr> clock := clock s + dt,
       timers := filter (\<lambda>due. \<not> due \<le> clock s + dt) (timers s),
       copiedId := (if filter (\<lambda>due. due \<le> clock s + dt) (timers s) = []
                    then copiedId s else None) \<rparr>"

text \<open>The decimal digits of an index, as \<^verbatim>\<open>${i}\<close> prints it.\<close>

fun nat_text :: "nat \<Rightarrow> string" where
  "nat_text n =
    (if n < 10 then [char_of (48 + n)]
     else nat_text (n div 10) @ [char_of (48 + n mod 10)])"

declare nat_text.simps [simp del]

text \<open>
  The copy button of card \<open>i\<close> (line 341). The cards are the elements of
  \<^verbatim>\<open>result.variants\<close> (line 333), whatever else the stored value has or lacks; they are
  on the page only if the page could be drawn. The handler is given for every element
  that lines 337-341 can read (a \<^verbatim>\<open>null\<close> element makes \<^verbatim>\<open>v.variant\<close> throw while
  the page is drawn), so for every card on the page.
\<close>

definition copy_variant :: "nat \<Rightarrow> App_state \<Rightarrow> App_state" where
  "copy_variant i s =
    (case property ''variants'' (result s) of
       Some (JArray vs) \<Rightarrow>
         (if i < length vs \<and> vs ! i \<noteq> JNull
          then copyToClipboard (text_of (property ''content'' (vs ! i)))
                 (text_of (property ''variant'' (vs ! i)) @ ''-'' @ nat_text i) s
          else s)
     | _ \<Rightarrow> s)"

subsection \<open>The events of the page\<close>

text \<open>
  Handlers run one at a time and the page is rendered again before the next event, so
  the button of line 289 is disabled (\<^verbatim>\<open>disabled={loading}\<close>) exactly when
  \<open>loading\<close> holds: a click on it then runs nothing.
\<close>

datatype Event =
  Input Change
| ClickCollect
| ClickNegotiate
| ClickGenerate
| Settled Response
| ClickCopy nat
| Elapse nat

fun step :: "Event \<Rightarrow> App_state \<Rightarrow> App_state" where
  "step (Input ch) s = handleInputChange ch s"
| "step ClickCollect s = selectMode ModeCollect s"
| "step ClickNegotiate s = selectMode ModeNegotiate s"
| "step ClickGenerate s = (if loading s then s else generateOutput_start s)"
| "step (Settled r) s = (if pending s = [] then s else generateOutput_resume r s)"
| "step (ClickCopy i) s = copy_variant i s"
| "step (Elapse dt) s = elapse dt s"

fun run :: "Event list \<Rightarrow> App_state \<Rightarrow> App_state" where
  "run [] s = s"
| "run (e # es) s = run es (step e s)"


subsection \<open>Concrete records, states and response texts\<close>

definition details_500 :: SituationDetails where
  "details_500 = initial_details\<lparr>amount := ''500''\<rparr>"

definition state_500 :: App_state where
  "state_500 = initial_state\<lparr>details := details_500\<rparr>"

text \<open>Collect mode, the custom reason chosen and filled in.\<close>

definition details_collect_custom :: SituationDetails where
  "details_collect_custom =
    initial_details\<lparr>amount := ''500'', delayReason := ''Other (Custom)'',
      customReason := ''Flight delay''\<rparr>"

text \<open>Negotiate mode, both custom fields chosen and filled in.\<close>

definition details_negotiate_custom :: SituationDetails where
  "details_negotiate_custom =
    initial_details\<lparr>mode := ModeNegotiate, amount := ''500'',
      delayReason := ''Other (Custom)'', customReason := ''Flight delay'',
      proposedSolution := ''Other (Custom)'', customSolution := ''Pay on Monday''\<rparr>"

text \<open>Negotiate mode, the text of the sentinel typed into the custom reason.\<close>

definition details_negotiate_sentinel :: SituationDetails where
  "details_negotiate_sentinel =
    initial_details\<lparr>mode := ModeNegotiate, amount := ''500'',
      delayReason := ''Other (Custom)'', customReason := ''Other (Custom)''\<rparr>"

definition result_text :: string where
  \<open>result_text = ''{"summary":"s","principles":["Reciprocity"],"variants":[{"variant":"Variant A","title":"t","content":"Hello"}],"voiceNote":"v"}''\<close>

definition result_value :: json where
  "result_value =
    JObject
      [(''summary'', JString ''s''),
       (''principles'', JArray [JString ''Reciprocity'']),
       (''variants'',
          JArray [JObject [(''variant'', JString ''Variant A''), (''title'', JString ''t''),
                           (''content'', JString ''Hello'')]]),
       (''voiceNote'', JString ''v'')]"

definition state_shown :: App_state where
  "state_shown = state_500\<lparr>result := result_value\<rparr>"

text \<open>A state with a result on display and no amount entered.\<close>

definition state_stale :: App_state where
  "state_stale = initial_state\<lparr>result := result_value\<rparr>"

definition state_negotiate_custom :: App_state where
  "state_negotiate_custom = initial_state\<lparr>details := details_negotiate_custom\<rparr>"

definition state_collect_custom :: App_state where
  "state_collect_custom = initial_state\<lparr>details := details_collect_custom\<rparr>"

definition state_negotiate_sentinel :: App_state where
  "state_negotiate_sentinel = initial_state\<lparr>details := details_negotiate_sentinel\<rparr>"

definition events_two_clicks :: "Event list" where
  "events_two_clicks = [Input (Amount ''500''), ClickGenerate, ClickGenerate]"


text \<open>The record of \<open>details_500\<close> with the other language.\<close>

definition details_english :: SituationDetails where
  "details_english = details_500\<lparr>language := English\<rparr>"





subsection \<open>Invariants of the page\<close>

text \<open>
  At most one call is pending, and the loading flag is on exactly while one is.
\<close>

definition in_flight_ok :: "App_state \<Rightarrow> bool" where
  "in_flight_ok s = (length (pending s) \<le> 1 \<and> (loading s \<longleftrightarrow> pending s \<noteq> []))"


section \<open>Facts about the parser and the concrete values\<close>





lemma as_Result_result_value:
  "as_Result result_value =
     Some \<lparr>summary = ''s'', principles = [''Reciprocity''],
            variants = [\<lparr>variant = ''Variant A'', title = ''t'', content = ''Hello''\<rparr>],
            voiceNote = ''v''\<rparr>"
  unfolding result_value_def by code_simp



section \<open>One invocation of \<^verbatim>\<open>generateOutput\<close>\<close>

lemma generateOutput_empty:
  "amount (details s) = [] \<Longrightarrow> generateOutput gen s = s\<lparr>error := Some validation_message\<rparr>"
  by (simp add: generateOutput_def generateOutput_start_def)

lemma try_catch_requests [simp]: "requests (try_catch r s) = requests s"
  by (simp add: try_catch_def split: Response.splits option.splits)

lemma try_catch_pending [simp]: "pending (try_catch r s) = pending s"
  by (simp add: try_catch_def split: Response.splits option.splits)

lemma try_catch_loading [simp]: "loading (try_catch r s) = loading s"
  by (simp add: try_catch_def split: Response.splits option.splits)

lemma try_catch_details [simp]: "details (try_catch r s) = details s"
  by (simp add: try_catch_def split: Response.splits option.splits)

lemma try_catch_copiedId [simp]: "copiedId (try_catch r s) = copiedId s"
  by (simp add: try_catch_def split: Response.splits option.splits)

lemma try_catch_timers [simp]: "timers (try_catch r s) = timers s"
  by (simp add: try_catch_def split: Response.splits option.splits)

lemma try_catch_clock [simp]: "clock (try_catch r s) = clock s"
  by (simp add: try_catch_def split: Response.splits option.splits)

lemma generateOutput_requests:
  "amount (details s) \<noteq> [] \<Longrightarrow>
   requests (generateOutput gen s) = requests s @ [build_request (details s)]"
  by (simp add: generateOutput_def generateOutput_resume_def generateOutput_start_def)




text \<open>
  Claim C1. When the amount of the situation record is the empty string,
  \<^verbatim>\<open>generateOutput\<close> sets the validation message as the error and returns: no request
  is recorded or left pending, the loading flag keeps its value, and the outcome is the
  same whatever the generation boundary would have answered, since it is never asked.
\<close>

theorem empty_amount_surfaces_validation_error_without_call:
  assumes "amount (details s) = []"
  shows "error (generateOutput gen s) = Some validation_message
       \<and> requests (generateOutput gen s) = requests s
       \<and> pending (generateOutput gen s) = pending s
       \<and> loading (generateOutput gen s) = loading s
       \<and> generateOutput gen s = generateOutput gen' s"
  using assms by (simp add: generateOutput_empty)

theorem empty_amount_surfaces_validation_error_without_call_witness:
  "amount (details initial_state) = []
   \<and> error (generateOutput (\<lambda>q. Text (Some result_text)) initial_state)
       = Some ''Please enter the amount.''
   \<and> requests (generateOutput (\<lambda>q. Text (Some result_text)) initial_state) = []
   \<and> pending (generateOutput (\<lambda>q. Text (Some result_text)) initial_state) = []
   \<and> loading (generateOutput (\<lambda>q. Text (Some result_text)) initial_state) = False
   \<and> generateOutput (\<lambda>q. Text (Some result_text)) initial_state
       = generateOutput (\<lambda>q. Fault) initial_state"
proof -
  have h: "amount (details initial_state) = []"
    by (simp add: initial_state_def initial_details_def)
  have i: "requests initial_state = []" "pending initial_state = []"
    "loading initial_state = False"
    by (simp_all add: initial_state_def)
  from empty_amount_surfaces_validation_error_without_call
    [OF h, of "\<lambda>q. Text (Some result_text)" "\<lambda>q. Fault"]
  show ?thesis using h i by (auto simp: validation_message_def)
qed







text \<open>
  Claim C5. With a non-empty amount, one invocation of \<^verbatim>\<open>generateOutput\<close> adds
  exactly one request to those made, the one built from the record, whatever the
  boundary answers: never none and never a second one.
\<close>

theorem nonempty_amount_exactly_one_call:
  assumes "amount (details s) \<noteq> []"
  shows "requests (generateOutput gen s) = requests s @ [build_request (details s)]
       \<and> length (requests (generateOutput gen s)) = length (requests s) + 1"
  using assms by (simp add: generateOutput_requests)

theorem nonempty_amount_exactly_one_call_witness:
  "amount (details state_500) \<noteq> []
   \<and> requests (generateOutput (\<lambda>q. Fault) state_500) = [build_request details_500]
   \<and> length (requests (generateOutput (\<lambda>q. Fault) state_500)) = 1"
  using nonempty_amount_exactly_one_call [of state_500 "\<lambda>q. Fault"]
  by (simp add: state_500_def details_500_def initial_state_def)

text \<open>
  Claim C6. Either mode button sets the mode, sets \<open>result\<close> to \<^verbatim>\<open>null\<close> and leaves
  every other field of the situation record as it was.
\<close>

theorem mode_switch_sets_mode_and_clears_result:
  "details (step ClickCollect s) = (details s)\<lparr>mode := ModeCollect\<rparr>
   \<and> result (step ClickCollect s) = JNull
   \<and> details (step ClickNegotiate s) = (details s)\<lparr>mode := ModeNegotiate\<rparr>
   \<and> result (step ClickNegotiate s) = JNull
   \<and> mode (details (selectMode m s)) = m
   \<and> result (selectMode m s) = JNull
   \<and> selectMode m s = s\<lparr>details := (details s)\<lparr>mode := m\<rparr>, result := JNull\<rparr>"
  by (simp add: selectMode_def)

theorem mode_switch_sets_mode_and_clears_result_witness:
  "result state_shown \<noteq> JNull
   \<and> result (step ClickNegotiate state_shown) = JNull
   \<and> details (step ClickNegotiate state_shown) = details_500\<lparr>mode := ModeNegotiate\<rparr>
   \<and> amount (details (step ClickNegotiate state_shown)) = ''500''"
  using mode_switch_sets_mode_and_clears_result [of state_shown ModeNegotiate]
  by (simp add: state_shown_def state_500_def details_500_def result_value_def)

text \<open>
  Claim C7. The system instruction is the same text, character for character, for two
  situation records exactly when they have the same language, and so is the instruction
  in the request built from them. It embeds one of two literal tone instructions, the
  one for Hinglish or the one for English, chosen by the language; the two resulting
  instructions differ, and there is no third.
\<close>

theorem system_instruction_depends_on_language_only:
  "(systemInstruction d = systemInstruction d' \<longleftrightarrow> language d = language d')
   \<and> (config_systemInstruction (build_request d) = config_systemInstruction (build_request d')
        \<longleftrightarrow> language d = language d')
   \<and> languageInstruction d =
        (if language d = Hinglish
         then ''Use natural Hinglish (mix of simple Hindi + English) in Roman script. Use words like 'bhai', 'sir', 'ma'am', 'yaar' appropriately. Never use Devanagari.''
         else ''Use professional, polite, and warm English. Maintain a helpful and respectful tone.'')
   \<and> sublist (''Language Requirement: '' @ languageInstruction d @ ''\<newline>'')
        (systemInstruction d)
   \<and> (systemInstruction d = systemInstruction (initial_details\<lparr>language := Hinglish\<rparr>)
        \<or> systemInstruction d = systemInstruction (initial_details\<lparr>language := English\<rparr>))
   \<and> systemInstruction (initial_details\<lparr>language := Hinglish\<rparr>)
        \<noteq> systemInstruction (initial_details\<lparr>language := English\<rparr>)"
proof -
  have a: "systemInstruction d = systemInstruction d' \<longleftrightarrow> language d = language d'"
    by (cases "language d"; cases "language d'")
      (simp_all add: systemInstruction_def languageInstruction_def)
  have b: "config_systemInstruction (build_request d) = systemInstruction d"
    "config_systemInstruction (build_request d') = systemInstruction d'"
    by (simp_all add: build_request_def)
  have c: "languageInstruction d =
        (if language d = Hinglish
         then ''Use natural Hinglish (mix of simple Hindi + English) in Roman script. Use words like 'bhai', 'sir', 'ma'am', 'yaar' appropriately. Never use Devanagari.''
         else ''Use professional, polite, and warm English. Maintain a helpful and respectful tone.'')"
    by (simp add: languageInstruction_def)
  have "systemInstruction d =
     ''You are an expert in creating polite, high-success-rate payment reminders for India. \<newline>      '' @
     (''Language Requirement: '' @ languageInstruction d @ ''\<newline>'') @
    ''      Tone: Respectful, professional, friendly, never threatening. Use psychological levers like Reciprocity, Commitment, and Face-saving.\<newline>'' @
    ''      \<newline>'' @
    ''      STRUCTURE RULES:\<newline>'' @
    ''      1. Situation summary: 1 short sentence in English.\<newline>'' @
    ''      2. Key psychological principles: List 3-6 items.\<newline>'' @
    ''      3. Message Variants:\<newline>'' @
    ''         - Variant A: Sabse zyada warm (most empathetic)\<newline>'' @
    ''         - Variant B: Reciprocity focus (remind of value/service provided)\<newline>'' @
    ''         - Variant C: Soft time sensitivity + easy call-to-action\<newline>'' @
    ''         - Variant D: Face-saving excuse (busy life/system error) + positive future.\<newline>'' @
    ''      4. Voice Note script: Short spoken opener in the selected language.\<newline>'' @
    ''      \<newline>'' @
    ''      IMPORTANT: Ensure all messages end with a clear Call to Action. Length: 80-180 words each. Do not use placeholders like [Your Name] if names are provided.''"
    by (simp add: systemInstruction_def)
  then have e: "sublist (''Language Requirement: '' @ languageInstruction d @ ''\<newline>'')
        (systemInstruction d)"
    by (metis sublist_appendI)
  have f: "systemInstruction d = systemInstruction (initial_details\<lparr>language := Hinglish\<rparr>)
        \<or> systemInstruction d = systemInstruction (initial_details\<lparr>language := English\<rparr>)"
    by (cases "language d") (simp_all add: systemInstruction_def languageInstruction_def)
  have g: "systemInstruction (initial_details\<lparr>language := Hinglish\<rparr>)
        \<noteq> systemInstruction (initial_details\<lparr>language := English\<rparr>)"
    by (simp add: systemInstruction_def languageInstruction_def)
  from a b c e f g show ?thesis by (simp only: simp_thms)
qed

theorem system_instruction_depends_on_language_only_witness:
  "language details_500 = language details_negotiate_custom
   \<and> details_500 \<noteq> details_negotiate_custom
   \<and> systemInstruction details_500 = systemInstruction details_negotiate_custom
   \<and> language details_500 = Hinglish
   \<and> language details_english = English
   \<and> systemInstruction details_500 \<noteq> systemInstruction details_english
   \<and> sublist ''Language Requirement: Use natural Hinglish (mix''
        (systemInstruction details_500)
   \<and> sublist ''Language Requirement: Use professional, polite, and warm English. Maintain a helpful and respectful tone.\<newline>''
        (systemInstruction details_english)"
proof -
  have l: "language details_500 = Hinglish" "language details_negotiate_custom = Hinglish"
    "language details_english = English"
    by (simp_all add: details_500_def details_negotiate_custom_def details_english_def
        initial_details_def)
  have n: "details_500 \<noteq> details_negotiate_custom"
    by (simp add: details_500_def details_negotiate_custom_def initial_details_def)
  note t = system_instruction_depends_on_language_only [of details_500 details_negotiate_custom]
  note u = system_instruction_depends_on_language_only [of details_500 details_english]
  note v = system_instruction_depends_on_language_only [of details_english details_500]
  from t l have a: "systemInstruction details_500 = systemInstruction details_negotiate_custom"
    by simp
  from u l have b: "systemInstruction details_500 \<noteq> systemInstruction details_english"
    by simp
  from v l have li: "languageInstruction details_english =
      ''Use professional, polite, and warm English. Maintain a helpful and respectful tone.''"
    by simp
  from v have "sublist (''Language Requirement: '' @ languageInstruction details_english @
      ''\<newline>'') (systemInstruction details_english)"
    by (elim conjE)
  then have c: "sublist ''Language Requirement: Use professional, polite, and warm English. Maintain a helpful and respectful tone.\<newline>''
        (systemInstruction details_english)"
    unfolding li by simp
  have d: "sublist ''Language Requirement: Use natural Hinglish (mix''
        (systemInstruction details_500)"
    by code_simp
  from l n a b c d show ?thesis by simp
qed

text \<open>
  Claim C10. With an empty amount \<^verbatim>\<open>generateOutput\<close> changes the error and nothing
  else: a result stored by an earlier generation, the loading flag and the situation
  record stay as they were.
\<close>

theorem empty_amount_changes_only_error:
  assumes "amount (details s) = []"
  shows "generateOutput gen s = s\<lparr>error := Some validation_message\<rparr>
       \<and> result (generateOutput gen s) = result s
       \<and> loading (generateOutput gen s) = loading s
       \<and> details (generateOutput gen s) = details s"
  using assms by (simp add: generateOutput_empty)

theorem empty_amount_changes_only_error_witness:
  "amount (details state_stale) = []
   \<and> result (generateOutput (\<lambda>q. Fault) state_stale) = result_value
   \<and> conforms_Result (result (generateOutput (\<lambda>q. Fault) state_stale))
   \<and> error (generateOutput (\<lambda>q. Fault) state_stale) = Some validation_message"
  using empty_amount_changes_only_error [of state_stale "\<lambda>q. Fault"]
  by (simp add: state_stale_def initial_state_def initial_details_def conforms_Result_def
      as_Result_result_value)

section \<open>The request that is sent\<close>

lemma userPrompt_negotiate:
  "mode d = ModeNegotiate \<Longrightarrow>
   sublist (''Reason for Delay: '' @ finalReason d @ ''\<newline>'' @
            ''Proposed Solution: '' @ finalSolution d @ ''\<newline>'') (userPrompt d)"
proof -
  assume m: "mode d = ModeNegotiate"
  let ?mid = "''Reason for Delay: '' @ finalReason d @ ''\<newline>'' @
            ''Proposed Solution: '' @ finalSolution d @ ''\<newline>''"
  let ?pre = "''\<newline>'' @
    ''        Mode: '' @ Mode_text (mode d) @ ''\<newline>'' @
    ''        Amount: '' @ amount d @ ''\<newline>'' @
    ''        Relationship: '' @ relationship d @ ''\<newline>'' @
    ''        Channel: '' @ channel d @ ''\<newline>'' @
    ''        Target Language: '' @ Language_text (language d) @ ''\<newline>'' @
    ''        Customer Name: '' @ or_else (customerName d) ''Customer'' @ ''\<newline>'' @
    ''        Sender Name: '' @ or_else (yourName d) ''Sender'' @ ''\<newline>'' @
    ''        How long overdue: '' @ overdue d @ ''\<newline>'' @
    ''        ''"
  let ?post = "''        Additional Context: '' @ otherInfo d @ ''\<newline>'' @ ''      ''"
  have "userPrompt d = ?pre @ ?mid @ ?post"
    using m by (simp add: userPrompt_def negotiateLines_def)
  then show ?thesis
    by (metis sublist_appendI)
qed

text \<open>In collect mode the four fields of the negotiation do not reach the prompt.\<close>

lemma userPrompt_collect:
  "mode d = ModeCollect \<Longrightarrow>
   userPrompt (d\<lparr>delayReason := a, customReason := b, proposedSolution := c,
      customSolution := e\<rparr>) = userPrompt d"
  by (simp add: userPrompt_def negotiateLines_def)

text \<open>
  Claim C3, as amended. For a record that reaches the building of the request,
  \<open>finalReason\<close> (\<open>finalSolution\<close>) is the custom free text whenever the select holds
  the sentinel \<^verbatim>\<open>Other (Custom)\<close>, whatever that free text is. In negotiate mode the
  request that goes out carries the lines \<^verbatim>\<open>Reason for Delay: \<close>\<open>finalReason\<close> and
  \<^verbatim>\<open>Proposed Solution: \<close>\<open>finalSolution\<close>. In collect mode it carries neither: it is
  the request of the record with the four fields of the negotiation emptied.
\<close>

theorem request_embeds_custom_text_in_negotiate_mode:
  assumes "amount (details s) \<noteq> []"
  shows "(delayReason (details s) = ''Other (Custom)'' \<longrightarrow>
            finalReason (details s) = customReason (details s))
       \<and> (proposedSolution (details s) = ''Other (Custom)'' \<longrightarrow>
            finalSolution (details s) = customSolution (details s))
       \<and> (mode (details s) = ModeNegotiate \<longrightarrow>
            sublist (''Reason for Delay: '' @ finalReason (details s) @ ''\<newline>'' @
                     ''Proposed Solution: '' @ finalSolution (details s) @ ''\<newline>'')
              (contents (last (requests (generateOutput gen s)))))
       \<and> (mode (details s) = ModeCollect \<longrightarrow>
            contents (last (requests (generateOutput gen s))) =
              userPrompt ((details s)\<lparr>delayReason := [], customReason := [],
                 proposedSolution := [], customSolution := []\<rparr>))"
proof -
  have "last (requests (generateOutput gen s)) = build_request (details s)"
    using assms(1) by (simp add: generateOutput_requests)
  then have r: "contents (last (requests (generateOutput gen s))) = userPrompt (details s)"
    by (simp add: build_request_def)
  have a: "delayReason (details s) = ''Other (Custom)'' \<longrightarrow>
            finalReason (details s) = customReason (details s)"
    by (simp add: finalReason_def)
  have b: "proposedSolution (details s) = ''Other (Custom)'' \<longrightarrow>
            finalSolution (details s) = customSolution (details s)"
    by (simp add: finalSolution_def)
  have c: "mode (details s) = ModeNegotiate \<longrightarrow>
            sublist (''Reason for Delay: '' @ finalReason (details s) @ ''\<newline>'' @
                  ''Proposed Solution: '' @ finalSolution (details s) @ ''\<newline>'')
            (contents (last (requests (generateOutput gen s))))"
    unfolding r by (rule impI) (rule userPrompt_negotiate)
  have e: "mode (details s) = ModeCollect \<longrightarrow>
            contents (last (requests (generateOutput gen s))) =
              userPrompt ((details s)\<lparr>delayReason := [], customReason := [],
                 proposedSolution := [], customSolution := []\<rparr>)"
    unfolding r by (rule impI) (rule userPrompt_collect [symmetric])
  from a b c e show ?thesis by (intro conjI)
qed

theorem request_embeds_custom_text_in_negotiate_mode_witness:
  "amount (details state_negotiate_custom) \<noteq> []
   \<and> mode (details state_negotiate_custom) = ModeNegotiate
   \<and> delayReason (details state_negotiate_custom) = ''Other (Custom)''
   \<and> proposedSolution (details state_negotiate_custom) = ''Other (Custom)''
   \<and> sublist (''Reason for Delay: Flight delay\<newline>Proposed Solution: Pay on Monday\<newline>'')
        (contents (last (requests (generateOutput (\<lambda>q. Fault) state_negotiate_custom))))
   \<and> amount (details state_collect_custom) \<noteq> []
   \<and> mode (details state_collect_custom) = ModeCollect
   \<and> contents (last (requests (generateOutput (\<lambda>q. Fault) state_collect_custom)))
        = userPrompt details_500"
proof -
  have d: "details state_negotiate_custom = details_negotiate_custom"
    by (simp add: state_negotiate_custom_def)
  have h: "amount (details state_negotiate_custom) \<noteq> []"
    "mode (details state_negotiate_custom) = ModeNegotiate"
    "delayReason (details state_negotiate_custom) = ''Other (Custom)''"
    "proposedSolution (details state_negotiate_custom) = ''Other (Custom)''"
    "customReason (details state_negotiate_custom) = ''Flight delay''"
    "customSolution (details state_negotiate_custom) = ''Pay on Monday''"
    by (simp_all add: d details_negotiate_custom_def initial_details_def)
  note t = request_embeds_custom_text_in_negotiate_mode [OF h(1), of "\<lambda>q. Fault"]
  from t h have fr: "finalReason (details state_negotiate_custom) = ''Flight delay''"
    by simp
  from t h have fs: "finalSolution (details state_negotiate_custom) = ''Pay on Monday''"
    by simp
  from t h(2) have "sublist (''Reason for Delay: '' @ finalReason (details state_negotiate_custom) @
        ''\<newline>'' @ ''Proposed Solution: '' @ finalSolution (details state_negotiate_custom) @
        ''\<newline>'')
      (contents (last (requests (generateOutput (\<lambda>q. Fault) state_negotiate_custom))))"
    by blast
  then have n: "sublist (''Reason for Delay: Flight delay\<newline>Proposed Solution: Pay on Monday\<newline>'')
        (contents (last (requests (generateOutput (\<lambda>q. Fault) state_negotiate_custom))))"
    unfolding fr fs by simp
  have g: "amount (details state_collect_custom) \<noteq> []"
    "mode (details state_collect_custom) = ModeCollect"
    by (simp_all add: state_collect_custom_def details_collect_custom_def initial_details_def)
  have b: "userPrompt ((details state_collect_custom)\<lparr>delayReason := [], customReason := [],
                 proposedSolution := [], customSolution := []\<rparr>) = userPrompt details_500"
    by (simp add: state_collect_custom_def details_collect_custom_def details_500_def
        initial_details_def userPrompt_def negotiateLines_def)
  note u = request_embeds_custom_text_in_negotiate_mode [OF g(1), of "\<lambda>q. Fault"]
  from u g(2) have "contents (last (requests (generateOutput (\<lambda>q. Fault) state_collect_custom)))
     = userPrompt ((details state_collect_custom)\<lparr>delayReason := [], customReason := [],
                 proposedSolution := [], customSolution := []\<rparr>)"
    by blast
  then have m: "contents (last (requests (generateOutput (\<lambda>q. Fault) state_collect_custom)))
        = userPrompt details_500"
    unfolding b .
  from h(1-4) n g m show ?thesis by (intro conjI)
qed

text \<open>
  Claim C3 as stated fails twice. In collect mode, with the sentinel selected and
  \<^verbatim>\<open>Flight delay\<close> as the custom reason, the request that goes out does not contain
  the custom reason at all. In negotiate mode, with the text of the sentinel typed as the
  custom reason, the effective reason is the sentinel string.
\<close>

theorem custom_text_not_embedded_or_sentinel_counterexample:
  "amount (details state_collect_custom) \<noteq> []
   \<and> delayReason (details state_collect_custom) = ''Other (Custom)''
   \<and> customReason (details state_collect_custom) = ''Flight delay''
   \<and> \<not> sublist ''Flight delay''
         (contents (last (requests (generateOutput (\<lambda>q. Fault) state_collect_custom))))
   \<and> amount (details state_negotiate_sentinel) \<noteq> []
   \<and> delayReason (details state_negotiate_sentinel) = ''Other (Custom)''
   \<and> finalReason (details state_negotiate_sentinel) = ''Other (Custom)''"
proof -
  have d: "details state_collect_custom = details_collect_custom"
    by (simp add: state_collect_custom_def)
  have a: "amount (details state_collect_custom) \<noteq> []"
    by (simp add: d details_collect_custom_def)
  have n: "\<not> sublist ''Flight delay'' (contents (build_request details_collect_custom))"
    by code_simp
  have l: "last (requests (generateOutput (\<lambda>q. Fault) state_collect_custom))
             = build_request details_collect_custom"
    using generateOutput_requests [OF a, of "\<lambda>q. Fault"] by (simp add: d)
  have c: "delayReason (details state_collect_custom) = ''Other (Custom)''"
    "customReason (details state_collect_custom) = ''Flight delay''"
    by (simp_all add: d details_collect_custom_def)
  have e: "amount (details state_negotiate_sentinel) \<noteq> []"
    "delayReason (details state_negotiate_sentinel) = ''Other (Custom)''"
    "finalReason (details state_negotiate_sentinel) = ''Other (Custom)''"
    by (simp_all add: state_negotiate_sentinel_def details_negotiate_sentinel_def
        finalReason_def)
  from a c n e show ?thesis unfolding l by (intro conjI)
qed

section \<open>Sequences of events\<close>

lemma tl_of_short: "length xs \<le> Suc 0 \<Longrightarrow> tl xs = []"
  by (cases xs) simp_all

lemma copy_variant_frame [simp]:
  "loading (copy_variant i s) = loading s"
  "pending (copy_variant i s) = pending s"
  by (simp_all add: copy_variant_def copyToClipboard_def split: option.splits json.splits)

lemma step_in_flight_ok: "in_flight_ok s \<Longrightarrow> in_flight_ok (step e s)"
  by (cases e)
    (auto simp: in_flight_ok_def tl_of_short handleInputChange_def selectMode_def
      generateOutput_start_def generateOutput_resume_def elapse_def
      split: if_splits)

lemma run_in_flight_ok: "in_flight_ok s \<Longrightarrow> in_flight_ok (run evs s)"
  by (induction evs arbitrary: s) (simp_all add: step_in_flight_ok)

lemma initial_in_flight_ok: "in_flight_ok initial_state"
  by (simp add: in_flight_ok_def initial_state_def)

lemma loading_falls_only_on_settle:
  "loading s \<Longrightarrow> \<not> loading (step e s) \<Longrightarrow> \<exists>r. e = Settled r"
  by (cases e)
    (auto simp: handleInputChange_def selectMode_def elapse_def split: if_splits)

lemma run_two_clicks:
  "loading (run events_two_clicks initial_state)"
  "pending (run events_two_clicks initial_state) = [build_request details_500]"
  "requests (run events_two_clicks initial_state) = [build_request details_500]"
  by (simp_all add: events_two_clicks_def initial_state_def initial_details_def details_500_def
      handleInputChange_def generateOutput_start_def)

text \<open>
  Claim C8. After any sequence of events from the initial state at most one generation
  request is pending, and the loading flag is on exactly while one is. While it is on, a
  click on the generate button changes nothing, the only event that turns it off is the
  settling of the pending call, and that settling does turn it off and leaves no call
  pending.
\<close>

theorem at_most_one_request_in_flight:
  "length (pending (run evs initial_state)) \<le> 1
   \<and> (loading (run evs initial_state) \<longleftrightarrow> pending (run evs initial_state) \<noteq> [])
   \<and> (loading (run evs initial_state) \<longrightarrow>
        step ClickGenerate (run evs initial_state) = run evs initial_state)
   \<and> (loading (run evs initial_state) \<longrightarrow>
        (\<forall>e. \<not> loading (step e (run evs initial_state)) \<longrightarrow> (\<exists>r. e = Settled r)))
   \<and> (loading (run evs initial_state) \<longrightarrow>
        (\<forall>r. \<not> loading (step (Settled r) (run evs initial_state))
             \<and> pending (step (Settled r) (run evs initial_state)) = []))"
proof -
  have ok: "in_flight_ok (run evs initial_state)"
    by (rule run_in_flight_ok [OF initial_in_flight_ok])
  then have p: "length (pending (run evs initial_state)) \<le> 1"
    and l: "loading (run evs initial_state) \<longleftrightarrow> pending (run evs initial_state) \<noteq> []"
    by (simp_all add: in_flight_ok_def)
  have g: "loading (run evs initial_state) \<longrightarrow>
        step ClickGenerate (run evs initial_state) = run evs initial_state"
    by simp
  have f: "loading (run evs initial_state) \<longrightarrow>
        (\<forall>e. \<not> loading (step e (run evs initial_state)) \<longrightarrow> (\<exists>r. e = Settled r))"
    using loading_falls_only_on_settle by blast
  have t: "loading (run evs initial_state) \<longrightarrow>
        (\<forall>r. \<not> loading (step (Settled r) (run evs initial_state))
             \<and> pending (step (Settled r) (run evs initial_state)) = [])"
  proof (intro impI allI)
    fix r
    assume "loading (run evs initial_state)"
    with l have ne: "pending (run evs initial_state) \<noteq> []" by simp
    from p have "tl (pending (run evs initial_state)) = []"
      by (simp add: tl_of_short)
    with ne show "\<not> loading (step (Settled r) (run evs initial_state))
             \<and> pending (step (Settled r) (run evs initial_state)) = []"
      by (simp add: generateOutput_resume_def)
  qed
  from p l g f t show ?thesis by (intro conjI)
qed

theorem at_most_one_request_in_flight_witness:
  "loading (run events_two_clicks initial_state)
   \<and> length (pending (run events_two_clicks initial_state)) = 1
   \<and> length (requests (run events_two_clicks initial_state)) = 1
   \<and> step ClickGenerate (run events_two_clicks initial_state)
       = run events_two_clicks initial_state
   \<and> \<not> loading (step (Settled Fault) (run events_two_clicks initial_state))
   \<and> pending (step (Settled Fault) (run events_two_clicks initial_state)) = []"
  using at_most_one_request_in_flight [of events_two_clicks] run_two_clicks
  by simp

section \<open>Copying a variant\<close>



lemma ToString_examples:
  "ToString (JArray [JNumber ''1'', JNull, JString ''a'', JArray [JBool True]]) = ''1,,a,true''"
  by code_simp


























end
